theory Spec2Isabelle
  imports Main "HOL-Library.AList"
begin

section \<open>Password strength validation (auth/password.py)\<close>

text \<open>
  A Python \<open>str\<close> is modelled as a \<open>string\<close>, one \<open>char\<close> per code point, so the model
  covers the strings whose code points are below 256. On these \<open>len\<close> is \<open>length\<close>,
  and the pattern \<open>\d\<close> matches exactly the ten ASCII digits (no other decimal digit of
  Unicode lies below 256).
\<close>

definition in_range :: "char \<Rightarrow> char \<Rightarrow> char \<Rightarrow> bool" where
  \<comment> \<open>a range \<open>lo-hi\<close> inside a regular expression's character class\<close>
  "in_range lo hi c \<longleftrightarrow> (of_char lo :: nat) \<le> of_char c \<and> (of_char c :: nat) \<le> of_char hi"

definition re_search_class :: "(char \<Rightarrow> bool) \<Rightarrow> string \<Rightarrow> bool" where
  \<comment> \<open>\<open>re.search\<close> of a pattern that is one character class: some character is in it\<close>
  "re_search_class cls s = list_ex cls s"

definition special_chars :: string where
  \<comment> \<open>the class \<open>[!@#$%^&*(),.?\":{}|<>]\<close>; the character 0x22 is the double quote\<close>
  "special_chars = ''!@#$%^&*(),.?'' @ [CHR 0x22] @ '':{}|<>''"

definition has_upper :: "string \<Rightarrow> bool" where
  "has_upper password = re_search_class (in_range CHR ''A'' CHR ''Z'') password"

definition has_lower :: "string \<Rightarrow> bool" where
  "has_lower password = re_search_class (in_range CHR ''a'' CHR ''z'') password"

definition has_digit :: "string \<Rightarrow> bool" where
  "has_digit password = re_search_class (in_range CHR ''0'' CHR ''9'') password"

definition has_special :: "string \<Rightarrow> bool" where
  "has_special password = re_search_class (\<lambda>c. c \<in> set special_chars) password"

definition validate_password_strength :: "string \<Rightarrow> bool \<times> string" where
  "validate_password_strength password =
     (if length password < 8 then
        (False, ''Password must be at least 8 characters long'')
      else if \<not> has_upper password then
        (False, ''Password must contain at least one uppercase letter'')
      else if \<not> has_lower password then
        (False, ''Password must contain at least one lowercase letter'')
      else if \<not> has_digit password then
        (False, ''Password must contain at least one number'')
      else if \<not> has_special password then
        (False, ''Password must contain at least one special character'')
      else (True, ''''))"

section \<open>Python values, exceptions and settings\<close>

text \<open>
  The values a claims dictionary holds: the JSON values (floats left out) and the
  \<open>datetime\<close> that \<open>create_access_token\<close> stores under \<open>exp\<close>. A dictionary is an
  association list in insertion order. A \<open>datetime\<close> is its number of microseconds
  since 0001-01-01T00:00:00, a \<open>timedelta\<close> a number of microseconds.
\<close>

datatype pyval =
    PyNone
  | PyBool bool
  | PyInt int
  | PyStr string
  | PyDatetime int
  | PyList "pyval list"
  | PyDict "(string \<times> pyval) list"

type_synonym claims = "(string \<times> pyval) list"

fun truthy :: "pyval \<Rightarrow> bool" where
  \<comment> \<open>Python's truth value of an object, as \<open>if x:\<close> and \<open>not x\<close> test it\<close>
  "truthy PyNone = False"
| "truthy (PyBool b) = b"
| "truthy (PyInt n) = (n \<noteq> 0)"
| "truthy (PyStr s) = (s \<noteq> [])"
| "truthy (PyDatetime t) = True"
| "truthy (PyList xs) = (xs \<noteq> [])"
| "truthy (PyDict kvs) = (kvs \<noteq> [])"

definition dict_get :: "claims \<Rightarrow> string \<Rightarrow> pyval" where
  \<comment> \<open>\<open>d.get(k)\<close>: the value, or \<open>None\<close> when the key is missing\<close>
  "dict_get d k = (case map_of d k of None \<Rightarrow> PyNone | Some v \<Rightarrow> v)"

datatype py_exception =
    JWTError string
  | ExpiredSignatureError string
  | JWTClaimsError string
  | HTTPException (status_code: nat) (detail: string) (headers: "(string \<times> string) list option")
  | OverflowError string
  | IndexError string
  | TypeError string
  | ValueError string
  | PasswordValueError string

fun isinstance_JWTError :: "py_exception \<Rightarrow> bool" where
  \<comment> \<open>what \<open>except JWTError\<close> catches: the class and its two subclasses\<close>
  "isinstance_JWTError (JWTError m) = True"
| "isinstance_JWTError (ExpiredSignatureError m) = True"
| "isinstance_JWTError (JWTClaimsError m) = True"
| "isinstance_JWTError e = False"

fun isinstance_ValueError :: "py_exception \<Rightarrow> bool" where
  \<comment> \<open>what \<open>except ValueError\<close> catches: the class and passlib's subclass\<close>
  "isinstance_ValueError (ValueError m) = True"
| "isinstance_ValueError (PasswordValueError m) = True"
| "isinstance_ValueError e = False"

record settings =
  JWT_SECRET :: string
  JWT_ALGORITHM :: string
  ACCESS_TOKEN_EXPIRE_MINUTES :: int

definition default_settings :: settings where
  \<comment> \<open>the defaults of \<open>config.py\<close>, used when the environment overrides nothing\<close>
  "default_settings =
     \<lparr> JWT_SECRET = ''CHANGE_THIS_IN_PRODUCTION_USE_RANDOM_STRING'',
       JWT_ALGORITHM = ''HS256'',
       ACCESS_TOKEN_EXPIRE_MINUTES = 1440 \<rparr>"

subsection \<open>datetime and timedelta\<close>

definition TIMEDELTA_MIN :: int where
  "TIMEDELTA_MIN = - 999999999 * 86400 * 1000000"

definition TIMEDELTA_MAX :: int where
  "TIMEDELTA_MAX = 1000000000 * 86400 * 1000000 - 1"

definition DATETIME_MAX :: int where
  \<comment> \<open>9999-12-31T23:59:59.999999, the day of ordinal 3652059\<close>
  "DATETIME_MAX = 3652059 * 86400 * 1000000 - 1"

definition timedelta_minutes :: "int \<Rightarrow> py_exception + int" where
  \<comment> \<open>\<open>timedelta(minutes=m)\<close>\<close>
  "timedelta_minutes m =
     (let us = m * 60 * 1000000
      in if TIMEDELTA_MIN \<le> us \<and> us \<le> TIMEDELTA_MAX then Inr us
         else Inl (OverflowError ''days out of range''))"

definition datetime_add :: "int \<Rightarrow> int \<Rightarrow> py_exception + int" where
  \<comment> \<open>\<open>datetime + timedelta\<close>\<close>
  "datetime_add t d =
     (if 0 \<le> t + d \<and> t + d \<le> DATETIME_MAX then Inr (t + d)
      else Inl (OverflowError ''date value out of range''))"

section \<open>Token service (auth/jwt\_handler.py)\<close>

text \<open>
  \<open>jwt.encode\<close> and \<open>jwt.decode\<close> belong to the python-jose library; the token
  service takes them as parameters, and a later section models the two above the
  library's signing layer. \<open>jwt.decode\<close> reads the clock itself, so the function passed
  for it stands for the library at the time of the call. The clock read by
  \<open>datetime.utcnow()\<close> is the argument \<open>utcnow\<close>; the configuration object
  \<open>settings\<close> is the argument \<open>cfg\<close>.
\<close>

type_synonym jwt_encode = "claims \<Rightarrow> string \<Rightarrow> string \<Rightarrow> py_exception + string"
type_synonym jwt_decode = "string \<Rightarrow> string \<Rightarrow> string list \<Rightarrow> py_exception + claims"

definition create_access_token ::
  "jwt_encode \<Rightarrow> settings \<Rightarrow> int \<Rightarrow> claims \<Rightarrow> int option \<Rightarrow> py_exception + string" where
  \<comment> \<open>\<open>if expires_delta:\<close> tests the truth value: \<open>None\<close> and \<open>timedelta(0)\<close> are both false\<close>
  "create_access_token encode cfg utcnow data expires_delta =
     (let to_encode = data;
          default_expire =
            (case timedelta_minutes (ACCESS_TOKEN_EXPIRE_MINUTES cfg) of
               Inl e \<Rightarrow> Inl e
             | Inr dflt \<Rightarrow> datetime_add utcnow dflt);
          expire =
            (case expires_delta of
               None \<Rightarrow> default_expire
             | Some d \<Rightarrow> if d \<noteq> 0 then datetime_add utcnow d else default_expire)
      in case expire of
           Inl e \<Rightarrow> Inl e
         | Inr t \<Rightarrow>
             encode (AList.update ''exp'' (PyDatetime t) to_encode)
               (JWT_SECRET cfg) (JWT_ALGORITHM cfg))"

definition verify_token :: "jwt_decode \<Rightarrow> settings \<Rightarrow> string \<Rightarrow> py_exception + claims option" where
  \<comment> \<open>the handler's \<open>print\<close> writes to standard output only and is left out\<close>
  "verify_token decode cfg token =
     (case decode token (JWT_SECRET cfg) [JWT_ALGORITHM cfg] of
        Inr payload \<Rightarrow> Inr (Some payload)
      | Inl e \<Rightarrow> if isinstance_JWTError e then Inr None else Inl e)"


definition create_user_token ::
  "jwt_encode \<Rightarrow> settings \<Rightarrow> int \<Rightarrow> int \<Rightarrow> string \<Rightarrow> string \<Rightarrow> py_exception + string" where
  "create_user_token encode cfg utcnow user_id email role =
     (let token_data =
            [(''user_id'', PyInt user_id), (''email'', PyStr email), (''role'', PyStr role)]
      in create_access_token encode cfg utcnow token_data None)"

section \<open>Users and the access guard (models/user.py, dependencies.py)\<close>

datatype UserRole = GUEST | USER | ADMIN

fun role_value :: "UserRole \<Rightarrow> string" where
  "role_value GUEST = ''guest''"
| "role_value USER = ''user''"
| "role_value ADMIN = ''admin''"

text \<open>
  The columns of the \<open>users\<close> table; \<open>id\<close>, \<open>name\<close>, \<open>email\<close> and \<open>role\<close> carry the
  prefix \<open>user_\<close> here.
\<close>

record user =
  user_id :: int
  user_name :: string
  user_email :: string
  password_hash :: string
  user_role :: UserRole
  created_at :: int

text \<open>
  The query \<open>db.query(User).filter(User.id == user_id).first()\<close> is the parameter
  \<open>find_user_by_id\<close>, the query by email \<open>find_user_by_email\<close>. A query returns a
  record or \<open>None\<close>, or raises what the database driver raises. The functions that
  query by id return, beside their outcome, the list of ids they looked up.
\<close>

type_synonym find_user_by_id = "pyval \<Rightarrow> py_exception + user option"





definition get_current_admin :: "user \<Rightarrow> py_exception + user" where
  "get_current_admin current_user =
     (if user_role current_user \<noteq> ADMIN then
        Inl (HTTPException 403 ''Admin access required'' None)
      else Inr current_user)"

fun split_on :: "char \<Rightarrow> string \<Rightarrow> string list" where
  \<comment> \<open>\<open>s.split(sep)\<close> for a separator of one character\<close>
  "split_on sep [] = [[]]"
| "split_on sep (c # cs) =
     (if c = sep then [] # split_on sep cs
      else (case split_on sep cs of
              w # ws \<Rightarrow> (c # w) # ws
            | [] \<Rightarrow> [[c]]))"

definition startswith :: "string \<Rightarrow> string \<Rightarrow> bool" where
  "startswith s p \<longleftrightarrow> take (length p) s = p"

definition get_optional_user ::
  "jwt_decode \<Rightarrow> settings \<Rightarrow> find_user_by_id \<Rightarrow> string option
     \<Rightarrow> pyval list \<times> (py_exception + user option)" where
  "get_optional_user decode cfg find_user_by_id authorization =
     (case authorization of
        None \<Rightarrow> ([], Inr None)
      | Some a \<Rightarrow>
          if a = [] then ([], Inr None)
          else if \<not> startswith a ''Bearer '' then ([], Inr None)
          else
            (case split_on CHR '' '' a of
               w # token # ws \<Rightarrow>
                 (case verify_token decode cfg token of
                    Inl e \<Rightarrow> ([], Inl e)
                  | Inr None \<Rightarrow> ([], Inr None)
                  | Inr (Some payload) \<Rightarrow>
                      if payload = [] then ([], Inr None)
                      else
                        (let uid = dict_get payload ''user_id''
                         in if \<not> truthy uid then ([], Inr None)
                            else ([uid], find_user_by_id uid)))
             | _ \<Rightarrow> ([], Inl (IndexError ''list index out of range''))))"

fun repr_items :: "string list \<Rightarrow> string" where
  "repr_items [] = []"
| "repr_items [s] = [CHR 0x27] @ s @ [CHR 0x27]"
| "repr_items (s # ss) = [CHR 0x27] @ s @ [CHR 0x27] @ '', '' @ repr_items ss"

definition repr_list :: "string list \<Rightarrow> string" where
  \<comment> \<open>how an f-string prints a list of strings that hold no quote and no escape\<close>
  "repr_list ss = ''['' @ repr_items ss @ '']''"

definition role_checker :: "UserRole list \<Rightarrow> user \<Rightarrow> py_exception + user" where
  "role_checker allowed_roles current_user =
     (if user_role current_user \<notin> set allowed_roles then
        Inl (HTTPException 403
               (''Access denied. Required roles: '' @ repr_list (map role_value allowed_roles))
               None)
      else Inr current_user)"

definition require_role :: "UserRole list \<Rightarrow> user \<Rightarrow> py_exception + user" where
  \<comment> \<open>\<open>require_role(*allowed_roles)\<close> returns the closure \<open>role_checker\<close>\<close>
  "require_role allowed_roles = role_checker allowed_roles"

section \<open>Login (routes/auth.py)\<close>

record UserLogin =
  login_email :: string
  login_password :: string

record UserResponse =
  resp_email :: string
  resp_name :: string
  resp_id :: int
  resp_role :: string
  resp_created_at :: int

record TokenResponse =
  access_token :: string
  token_type :: string
  token_user :: UserResponse

definition from_orm :: "user \<Rightarrow> UserResponse" where
  "from_orm u =
     \<lparr> resp_email = user_email u, resp_name = user_name u, resp_id = user_id u,
       resp_role = role_value (user_role u), resp_created_at = created_at u \<rparr>"

type_synonym find_user_by_email = "string \<Rightarrow> py_exception + user option"
type_synonym verify_password = "string \<Rightarrow> string \<Rightarrow> py_exception + bool"

definition login ::
  "jwt_encode \<Rightarrow> settings \<Rightarrow> int \<Rightarrow> find_user_by_email \<Rightarrow> verify_password
     \<Rightarrow> UserLogin \<Rightarrow> py_exception + TokenResponse" where
  \<comment> \<open>\<open>verify_password\<close> is passlib's \<open>pwd_context.verify\<close>, a parameter: it returns
      a truth value or raises; the handler catches nothing\<close>
  "login encode cfg utcnow find_user_by_email verify_password credentials =
     (case find_user_by_email (login_email credentials) of
        Inl e \<Rightarrow> Inl e
      | Inr None \<Rightarrow> Inl (HTTPException 401 ''Incorrect email or password'' None)
      | Inr (Some u) \<Rightarrow>
          (case verify_password (login_password credentials) (password_hash u) of
             Inl e \<Rightarrow> Inl e
           | Inr False \<Rightarrow> Inl (HTTPException 401 ''Incorrect email or password'' None)
           | Inr True \<Rightarrow>
               (case create_user_token encode cfg utcnow
                       (user_id u) (user_email u) (role_value (user_role u)) of
                  Inl e \<Rightarrow> Inl e
                | Inr token \<Rightarrow>
                    Inr \<lparr> access_token = token, token_type = ''bearer'',
                          token_user = from_orm u \<rparr>)))"

section \<open>The python-jose library above its signing layer\<close>

text \<open>
  \<open>jwt.encode\<close> and \<open>jwt.decode\<close> as the token service calls them: without audience,
  issuer, subject, access token or options. The signing layer is a pair of parameters:
  \<open>jws_sign\<close> is \<open>jws.sign\<close>, and \<open>jws_verify\<close> is \<open>jws.verify\<close> followed by the parsing
  of the payload as JSON, with the errors of both as \<open>jwt.decode\<close> raises them. Python's
  \<open>int\<close> on a \<open>str\<close> is the parameter \<open>str_to_int\<close>, \<open>None\<close> where it raises
  \<open>ValueError\<close>. The clock that \<open>jwt.decode\<close> reads is the argument \<open>utcnow\<close>.
\<close>

type_synonym jws_sign = "claims \<Rightarrow> string \<Rightarrow> string \<Rightarrow> py_exception + string"
type_synonym jws_verify = "string \<Rightarrow> string \<Rightarrow> string list \<Rightarrow> py_exception + pyval"

definition time_claims :: "string list" where
  \<comment> \<open>the claims that \<open>jwt.encode\<close> rewrites from a \<open>datetime\<close> to a timestamp\<close>
  "time_claims = [''exp'', ''iat'', ''nbf'']"

definition timegm :: "int \<Rightarrow> int" where
  \<comment> \<open>\<open>timegm(dt.utctimetuple())\<close>: the whole seconds since 1970-01-01, the day of
      ordinal 719163\<close>
  "timegm t = t div 1000000 - 719162 * 86400"

fun to_timestamp :: "pyval \<Rightarrow> pyval" where
  "to_timestamp (PyDatetime t) = PyInt (timegm t)"
| "to_timestamp v = v"

definition wire_claims :: "claims \<Rightarrow> claims" where
  "wire_claims cs =
     map (\<lambda>(k, v). if k \<in> set time_claims then (k, to_timestamp v) else (k, v)) cs"

definition jose_encode :: "jws_sign \<Rightarrow> jwt_encode" where
  "jose_encode sign cs key alg = sign (wire_claims cs) key alg"

fun py_int :: "(string \<Rightarrow> int option) \<Rightarrow> pyval \<Rightarrow> py_exception + int" where
  \<comment> \<open>\<open>int(v)\<close>\<close>
  "py_int str_to_int (PyInt n) = Inr n"
| "py_int str_to_int (PyBool b) = Inr (if b then 1 else 0)"
| "py_int str_to_int (PyStr s) =
     (case str_to_int s of
        Some n \<Rightarrow> Inr n
      | None \<Rightarrow> Inl (ValueError ''invalid literal for int() with base 10''))"
| "py_int str_to_int v =
     Inl (TypeError ''int() argument must be a string, a bytes-like object or a real number'')"

definition int_claim ::
  "(string \<Rightarrow> int option) \<Rightarrow> string \<Rightarrow> pyval \<Rightarrow> py_exception + int" where
  \<comment> \<open>\<open>try: int(v) except ValueError: raise JWTClaimsError(msg)\<close>\<close>
  "int_claim str_to_int msg v =
     (case py_int str_to_int v of
        Inl e \<Rightarrow> if isinstance_ValueError e then Inl (JWTClaimsError msg) else Inl e
      | Inr n \<Rightarrow> Inr n)"

definition validate_iat :: "(string \<Rightarrow> int option) \<Rightarrow> claims \<Rightarrow> py_exception option" where
  "validate_iat str_to_int cs =
     (case map_of cs ''iat'' of
        None \<Rightarrow> None
      | Some v \<Rightarrow>
          (case int_claim str_to_int ''Issued At claim (iat) must be an integer.'' v of
             Inl e \<Rightarrow> Some e
           | Inr iat \<Rightarrow> None))"

definition validate_nbf :: "(string \<Rightarrow> int option) \<Rightarrow> int \<Rightarrow> claims \<Rightarrow> py_exception option" where
  "validate_nbf str_to_int now cs =
     (case map_of cs ''nbf'' of
        None \<Rightarrow> None
      | Some v \<Rightarrow>
          (case int_claim str_to_int ''Not Before claim (nbf) must be an integer.'' v of
             Inl e \<Rightarrow> Some e
           | Inr nbf \<Rightarrow>
               if nbf > now then Some (JWTClaimsError ''The token is not yet valid (nbf)'')
               else None))"

definition validate_exp :: "(string \<Rightarrow> int option) \<Rightarrow> int \<Rightarrow> claims \<Rightarrow> py_exception option" where
  "validate_exp str_to_int now cs =
     (case map_of cs ''exp'' of
        None \<Rightarrow> None
      | Some v \<Rightarrow>
          (case int_claim str_to_int ''Expiration Time claim (exp) must be an integer.'' v of
             Inl e \<Rightarrow> Some e
           | Inr exp \<Rightarrow>
               if exp < now then Some (ExpiredSignatureError ''Signature has expired.'')
               else None))"

fun is_PyStr :: "pyval \<Rightarrow> bool" where
  "is_PyStr (PyStr s) = True"
| "is_PyStr v = False"

definition validate_aud :: "claims \<Rightarrow> py_exception option" where
  \<comment> \<open>the audience passed is \<open>None\<close>, which no list of strings contains\<close>
  "validate_aud cs =
     (case map_of cs ''aud'' of
        None \<Rightarrow> None
      | Some (PyStr s) \<Rightarrow> Some (JWTClaimsError ''Invalid audience'')
      | Some (PyList xs) \<Rightarrow>
          if list_ex (\<lambda>x. \<not> is_PyStr x) xs then
            Some (JWTClaimsError ''Invalid claim format in token'')
          else Some (JWTClaimsError ''Invalid audience'')
      | Some v \<Rightarrow> Some (JWTClaimsError ''Invalid claim format in token''))"

definition validate_sub :: "claims \<Rightarrow> py_exception option" where
  "validate_sub cs =
     (case map_of cs ''sub'' of
        None \<Rightarrow> None
      | Some v \<Rightarrow>
          if \<not> is_PyStr v then Some (JWTClaimsError ''Subject must be a string.'') else None)"

definition validate_jti :: "claims \<Rightarrow> py_exception option" where
  "validate_jti cs =
     (case map_of cs ''jti'' of
        None \<Rightarrow> None
      | Some v \<Rightarrow>
          if \<not> is_PyStr v then Some (JWTClaimsError ''JWT ID must be a string.'') else None)"

definition validate_at_hash :: "claims \<Rightarrow> py_exception option" where
  \<comment> \<open>the access token passed is \<open>None\<close>\<close>
  "validate_at_hash cs =
     (case map_of cs ''at_hash'' of
        None \<Rightarrow> None
      | Some v \<Rightarrow>
          Some (JWTClaimsError ''No access_token provided to compare against at_hash claim.''))"

fun first_raised :: "py_exception option list \<Rightarrow> py_exception option" where
  \<comment> \<open>the checks run in order; the first exception ends the run\<close>
  "first_raised [] = None"
| "first_raised (None # rs) = first_raised rs"
| "first_raised (Some e # rs) = Some e"

definition validate_claims ::
  "(string \<Rightarrow> int option) \<Rightarrow> int \<Rightarrow> claims \<Rightarrow> py_exception option" where
  \<comment> \<open>the issuer passed is \<open>None\<close>: \<open>iss\<close> is not checked\<close>
  "validate_claims str_to_int now cs =
     first_raised
       [validate_iat str_to_int cs, validate_nbf str_to_int now cs,
        validate_exp str_to_int now cs, validate_aud cs, validate_sub cs,
        validate_jti cs, validate_at_hash cs]"

definition jose_decode :: "jws_verify \<Rightarrow> (string \<Rightarrow> int option) \<Rightarrow> int \<Rightarrow> jwt_decode" where
  "jose_decode verify str_to_int utcnow token key algorithms =
     (case verify token key algorithms of
        Inl e \<Rightarrow> Inl e
      | Inr (PyDict cs) \<Rightarrow>
          (case validate_claims str_to_int (timegm utcnow) cs of
             Some e \<Rightarrow> Inl e
           | None \<Rightarrow> Inr cs)
      | Inr v \<Rightarrow> Inl (JWTError ''Invalid payload string: must be a json object''))"

section \<open>Notions of the specification\<close>

text \<open>
  The definitions of this section follow the wording of the specification; the
  theorems compare them with the functions above.
\<close>

definition is_alnum :: "char \<Rightarrow> bool" where
  "is_alnum c \<longleftrightarrow>
     in_range CHR ''A'' CHR ''Z'' c \<or> in_range CHR ''a'' CHR ''z'' c \<or> in_range CHR ''0'' CHR ''9'' c"

definition is_space :: "char \<Rightarrow> bool" where
  \<comment> \<open>space, tab, line feed, vertical tab, form feed, carriage return\<close>
  "is_space c \<longleftrightarrow> c = CHR '' '' \<or> in_range (CHR 0x09) (CHR 0x0D) c"

definition spec_special_char :: "char \<Rightarrow> bool" where
  \<comment> \<open>"special character (non-alphanumeric, excluding whitespace)"\<close>
  "spec_special_char c \<longleftrightarrow> \<not> is_alnum c \<and> \<not> is_space c"





definition token_of_header :: "string \<Rightarrow> string" where
  \<comment> \<open>what follows \<open>Bearer\<close> and one space in a header, up to the next space\<close>
  "token_of_header a = takeWhile (\<lambda>c. c \<noteq> CHR '' '') (drop 7 a)"

datatype outcome = Authorized user | Forbidden | Unauthenticated | Raised py_exception

fun guard_outcome :: "py_exception + user \<Rightarrow> outcome" where
  \<comment> \<open>the terminal state of a guard: 403 is Forbidden, 401 Unauthenticated\<close>
  "guard_outcome (Inr u) = Authorized u"
| "guard_outcome (Inl (HTTPException code d h)) =
     (if code = 403 then Forbidden
      else if code = 401 then Unauthenticated
      else Raised (HTTPException code d h))"
| "guard_outcome (Inl e) = Raised e"

subsection \<open>Sample inputs\<close>

definition sample_user :: "UserRole \<Rightarrow> user" where
  "sample_user r =
     \<lparr> user_id = 123, user_name = ''A'', user_email = ''a@b.com'',
       password_hash = ''$2b$12$abcdefghijklmnopqrstuuABCDEFGHIJKLMNOPQRSTUVWXYZ01234'',
       user_role = r, created_at = 0 \<rparr>"

definition sample_now :: int where
  \<comment> \<open>2026-11-04T00:00:00, the day of ordinal 739924\<close>
  "sample_now = 739923 * 86400 * 1000000"

definition sample_claims :: claims where
  "sample_claims = [(''user_id'', PyInt 123), (''email'', PyStr ''a@b.com''), (''role'', PyStr ''user'')]"

definition sample_decode :: jwt_decode where
  \<comment> \<open>\<open>jwt.decode\<close> on five tokens; the payload of the last is
      \<open>{"user_id": 1, "exp": null}\<close>, on which the library's \<open>int(None)\<close> raises\<close>
  "sample_decode token key algorithms =
     (if token = ''h.p123.s'' then Inr (sample_claims @ [(''exp'', PyInt 1793836800)])
      else if token = ''h.p0.s'' then Inr [(''user_id'', PyInt 0), (''exp'', PyInt 1793836800)]
      else if token = ''h.nouid.s'' then Inr [(''email'', PyStr ''a@b.com'')]
      else if token = ''h.pbig.s'' then
        Inr [(''user_id'', PyInt 9223372036854775808), (''exp'', PyInt 1793836800)]
      else if token = ''h.pnull.s'' then
        Inl (TypeError ''int() argument must be a string, a bytes-like object or a real number'')
      else Inl (JWTError ''Not enough segments''))"

definition sub_claims :: claims where
  "sub_claims = [(''user_id'', PyInt 1), (''sub'', PyInt 1)]"

definition sample_sign :: jws_sign where
  \<comment> \<open>a signing layer of two tokens: the sample claims expiring after a day, and the
      claims with a numeric \<open>sub\<close> expiring after a minute\<close>
  "sample_sign cs key alg =
     (if cs = sample_claims @ [(''exp'', PyInt 1793836800)] then Inr ''h.p123.s''
      else if cs = sub_claims @ [(''exp'', PyInt 1793750460)] then Inr ''h.psub.s''
      else Inl (TypeError ''Object is not JSON serializable''))"




definition sample_find_user :: find_user_by_id where
  \<comment> \<open>a table without users, on a database whose integers have 64 bits\<close>
  "sample_find_user uid =
     (if uid = PyInt 9223372036854775808 then
        Inl (OverflowError ''Python int too large to convert to SQLite INTEGER'')
      else Inr None)"

definition nul_password :: string where
  "nul_password = [CHR ''a'', CHR 0x00, CHR ''b'']"

definition sample_verify_password :: verify_password where
  \<comment> \<open>a verifier that knows one password and, as bcrypt does, refuses a NUL\<close>
  "sample_verify_password plain hashed =
     (if CHR 0x00 \<in> set plain then
        Inl (PasswordValueError ''bcrypt does not allow NULL bytes in password'')
      else Inr (plain = ''StrongP@ss123''))"

section \<open>Password strength: theorems\<close>

lemmas password_defs =
  validate_password_strength_def has_upper_def has_lower_def has_digit_def has_special_def
  re_search_class_def in_range_def special_chars_def

text \<open>
  C2, as stated, fails. The password \<open>Passw0rd-\<close> has nine characters, an uppercase
  letter, a lowercase letter, a digit and the hyphen, which is neither alphanumeric nor
  whitespace; \<open>validate_password_strength\<close> rejects it, because the hyphen is not in the
  character class of the source.
\<close>

theorem special_char_counterexample:
  "8 \<le> length ''Passw0rd-'' \<and> has_upper ''Passw0rd-'' \<and> has_lower ''Passw0rd-''
   \<and> has_digit ''Passw0rd-'' \<and> list_ex spec_special_char ''Passw0rd-''
   \<and> \<not> fst (validate_password_strength ''Passw0rd-'')"
  by (simp add: password_defs spec_special_char_def is_alnum_def is_space_def)

text \<open>
  C2, amended: a password of length at least 8 that contains an uppercase letter, a
  lowercase letter and a digit is accepted by \<open>validate_password_strength\<close> if and only
  if it contains at least one of the twenty characters \<open>!@#$%^&*(),.?":{}|<>\<close>.
\<close>

theorem special_char_decides:
  assumes "8 \<le> length password" and "has_upper password" and "has_lower password"
    and "has_digit password"
  shows "fst (validate_password_strength password)
           \<longleftrightarrow> (\<exists>c \<in> set password. c \<in> set special_chars)"
  using assms
  by (simp add: validate_password_strength_def has_special_def re_search_class_def list_ex_iff)

theorem special_char_decides_witness:
  "8 \<le> length ''StrongP@ss123'' \<and> has_upper ''StrongP@ss123'' \<and> has_lower ''StrongP@ss123''
   \<and> has_digit ''StrongP@ss123'' \<and> fst (validate_password_strength ''StrongP@ss123'')
   \<and> CHR ''@'' \<in> set special_chars"
proof -
  have 1: "8 \<le> length ''StrongP@ss123''" by simp
  have 2: "has_upper ''StrongP@ss123''" by (simp add: password_defs)
  have 3: "has_lower ''StrongP@ss123''" by (simp add: password_defs)
  have 4: "has_digit ''StrongP@ss123''" by (simp add: password_defs)
  have 5: "CHR ''@'' \<in> set special_chars" by (simp add: special_chars_def)
  have "\<exists>c \<in> set ''StrongP@ss123''. c \<in> set special_chars" using 5 by simp
  with special_char_decides [OF 1 2 3 4]
  have "fst (validate_password_strength ''StrongP@ss123'')" by blast
  with 1 2 3 4 5 show ?thesis by blast
qed



section \<open>Token service: theorems\<close>

lemma verify_token_caught:
  assumes "decode token (JWT_SECRET cfg) [JWT_ALGORITHM cfg] = Inl e" and "isinstance_JWTError e"
  shows "verify_token decode cfg token = Inr None"
  using assms by (simp add: verify_token_def)

lemma verify_token_decoded:
  assumes "decode token (JWT_SECRET cfg) [JWT_ALGORITHM cfg] = Inr payload"
  shows "verify_token decode cfg token = Inr (Some payload)"
  using assms by (simp add: verify_token_def)

text \<open>
  A validly signed token whose payload is \<open>{"user_id": 1, "exp": null}\<close>: the library
  applies \<open>int\<close> to \<open>None\<close> and raises \<open>TypeError\<close>, whatever the clock.
\<close>

lemma null_exp_raises:
  assumes "verify token key algorithms = Inr (PyDict [(''user_id'', PyInt 1), (''exp'', PyNone)])"
  shows "jose_decode verify str_to_int utcnow token key algorithms
           = Inl (TypeError
               ''int() argument must be a string, a bytes-like object or a real number'')"
  using assms
  by (simp add: jose_decode_def validate_claims_def validate_iat_def validate_nbf_def
      validate_exp_def int_claim_def)

text \<open>
  C1 fails where \<open>jwt.decode\<close> raises an exception that is not a \<open>JWTError\<close>:
  \<open>verify_token\<close> does not catch it and raises it to its caller, where the claim has it
  return \<open>None\<close>.
\<close>

theorem verify_token_propagates:
  assumes "decode token (JWT_SECRET cfg) [JWT_ALGORITHM cfg] = Inl e"
    and "\<not> isinstance_JWTError e"
  shows "verify_token decode cfg token = Inl e"
  using assms by (simp add: verify_token_def)

theorem verify_token_propagates_witness:
  "verify_token sample_decode default_settings ''h.pnull.s''
     = Inl (TypeError ''int() argument must be a string, a bytes-like object or a real number'')"
proof -
  have d: "sample_decode ''h.pnull.s'' (JWT_SECRET default_settings)
             [JWT_ALGORITHM default_settings]
      = Inl (TypeError ''int() argument must be a string, a bytes-like object or a real number'')"
    by (simp add: sample_decode_def)
  have n: "\<not> isinstance_JWTError
      (TypeError ''int() argument must be a string, a bytes-like object or a real number'')"
    by simp
  from verify_token_propagates [of sample_decode "''h.pnull.s''" default_settings, OF d n]
  show ?thesis .
qed

subsection \<open>Expiry\<close>

lemma create_access_token_custom:
  assumes "d \<noteq> 0" and "0 \<le> utcnow + d" and "utcnow + d \<le> DATETIME_MAX"
  shows "create_access_token encode cfg utcnow c (Some d)
           = encode (AList.update ''exp'' (PyDatetime (utcnow + d)) c)
               (JWT_SECRET cfg) (JWT_ALGORITHM cfg)"
  using assms by (simp add: create_access_token_def datetime_add_def)

lemma create_access_token_default:
  assumes "timedelta_minutes (ACCESS_TOKEN_EXPIRE_MINUTES cfg) = Inr dflt"
    and "0 \<le> utcnow + dflt" and "utcnow + dflt \<le> DATETIME_MAX"
  shows "create_access_token encode cfg utcnow c None
           = encode (AList.update ''exp'' (PyDatetime (utcnow + dflt)) c)
               (JWT_SECRET cfg) (JWT_ALGORITHM cfg)"
  using assms by (simp add: create_access_token_def datetime_add_def)

lemma default_duration: "timedelta_minutes (ACCESS_TOKEN_EXPIRE_MINUTES default_settings)
    = Inr (1440 * 60 * 1000000)"
  by (simp add: timedelta_minutes_def default_settings_def TIMEDELTA_MIN_def TIMEDELTA_MAX_def)

text \<open>
  C6 at the duration \<open>timedelta(0)\<close>: the caller supplies a custom duration of zero, and
  the token issued carries the expiry of the default duration, 1440 minutes after the
  issuance time, not the issuance time itself.
\<close>

theorem zero_delta_takes_default:
  "create_access_token encode default_settings sample_now [(''user_id'', PyInt 1)] (Some 0)
     = encode [(''user_id'', PyInt 1), (''exp'', PyDatetime (sample_now + 1440 * 60 * 1000000))]
         ''CHANGE_THIS_IN_PRODUCTION_USE_RANDOM_STRING'' ''HS256''
   \<and> PyDatetime (sample_now + 1440 * 60 * 1000000) \<noteq> PyDatetime (sample_now + 0)"
  by (simp add: create_access_token_def default_settings_def sample_now_def timedelta_minutes_def
      datetime_add_def TIMEDELTA_MIN_def TIMEDELTA_MAX_def DATETIME_MAX_def Let_def)

subsection \<open>Round trip\<close>




















section \<open>Access guard: theorems\<close>

text \<open>
  C3: with the allowed roles \<open>{ADMIN}\<close>, \<open>require_role\<close> raises the 403 exception for
  an identity of role \<open>USER\<close> and returns the identity for one of role \<open>ADMIN\<close>. For any
  allowed roles it returns the identity exactly when the identity's role is one of them:
  no role stands for another.
\<close>

theorem require_role_exact_match:
  "(user_role u = USER \<longrightarrow>
      require_role [ADMIN] u =
        Inl (HTTPException 403
               (''Access denied. Required roles: ['' @ [CHR 0x27] @ ''admin'' @ [CHR 0x27] @ '']'')
               None)
      \<and> guard_outcome (require_role [ADMIN] u) = Forbidden)
   \<and> (user_role u = ADMIN \<longrightarrow>
      require_role [ADMIN] u = Inr u \<and> guard_outcome (require_role [ADMIN] u) = Authorized u)
   \<and> (require_role allowed_roles u = Inr u \<longleftrightarrow> user_role u \<in> set allowed_roles)
   \<and> (guard_outcome (require_role allowed_roles u) = Forbidden
        \<longleftrightarrow> user_role u \<notin> set allowed_roles)"
  by (simp add: require_role_def role_checker_def repr_list_def)

theorem require_role_exact_match_witness:
  "guard_outcome (require_role [ADMIN] (sample_user USER)) = Forbidden
   \<and> require_role [ADMIN] (sample_user ADMIN) = Inr (sample_user ADMIN)
   \<and> guard_outcome (require_role [USER] (sample_user ADMIN)) = Forbidden"
  using require_role_exact_match [of "sample_user USER" "[ADMIN]"]
    require_role_exact_match [of "sample_user ADMIN" "[USER]"]
  by (simp add: sample_user_def)

text \<open>
  C9: for every resolved identity, \<open>get_current_admin\<close> and \<open>require_role\<close> with the
  allowed roles \<open>{ADMIN}\<close> end in the same outcome: the identity passed through when its
  role is \<open>ADMIN\<close>, Forbidden otherwise.
\<close>

theorem admin_guard_is_role_guard:
  "guard_outcome (get_current_admin u) = guard_outcome (require_role [ADMIN] u)
   \<and> guard_outcome (get_current_admin u)
        = (if user_role u = ADMIN then Authorized u else Forbidden)"
  by (simp add: get_current_admin_def require_role_def role_checker_def)

theorem admin_guard_is_role_guard_witness:
  "guard_outcome (get_current_admin (sample_user USER)) = Forbidden
   \<and> guard_outcome (require_role [ADMIN] (sample_user USER)) = Forbidden
   \<and> guard_outcome (require_role [ADMIN] (sample_user ADMIN)) = Authorized (sample_user ADMIN)"
proof -
  have u: "user_role (sample_user USER) \<noteq> ADMIN" by (simp add: sample_user_def)
  have a: "user_role (sample_user ADMIN) = ADMIN" by (simp add: sample_user_def)
  from admin_guard_is_role_guard [of "sample_user USER"] u
  have 1: "guard_outcome (get_current_admin (sample_user USER)) = Forbidden"
    and 2: "guard_outcome (require_role [ADMIN] (sample_user USER)) = Forbidden"
    by auto
  from admin_guard_is_role_guard [of "sample_user ADMIN"] a
  have 3: "guard_outcome (require_role [ADMIN] (sample_user ADMIN))
             = Authorized (sample_user ADMIN)"
    by auto
  from 1 2 3 show ?thesis by blast
qed

subsection \<open>The Authorization header\<close>

lemma split_on_prefix:
  "sep \<notin> set w \<Longrightarrow> split_on sep (w @ sep # rest) = w # split_on sep rest"
  by (induction w) auto

lemma split_on_head: "\<exists>ws. split_on sep s = takeWhile (\<lambda>c. c \<noteq> sep) s # ws"
  by (induction s) (auto split: list.splits)

lemma startswith_Bearer:
  assumes "startswith a ''Bearer ''"
  shows "a = ''Bearer'' @ CHR '' '' # drop 7 a"
proof -
  have l: "length ''Bearer '' = 7" by simp
  from assms have "take 7 a = ''Bearer ''" unfolding startswith_def l .
  with append_take_drop_id [of 7 a] show ?thesis by simp
qed

text \<open>After the test of the prefix, the index 1 of the split is in range.\<close>

lemma split_on_Bearer:
  assumes "startswith a ''Bearer ''"
  shows "\<exists>ws. split_on CHR '' '' a = ''Bearer'' # token_of_header a # ws"
proof -
  obtain ws where ws: "split_on CHR '' '' (drop 7 a)
      = takeWhile (\<lambda>c. c \<noteq> CHR '' '') (drop 7 a) # ws"
    using split_on_head by blast
  have p: "split_on CHR '' '' (''Bearer'' @ CHR '' '' # drop 7 a)
          = ''Bearer'' # split_on CHR '' '' (drop 7 a)"
    by (rule split_on_prefix) simp
  have "split_on CHR '' '' a = split_on CHR '' '' (''Bearer'' @ CHR '' '' # drop 7 a)"
    using startswith_Bearer [OF assms] by (rule arg_cong)
  with p ws show ?thesis by (simp add: token_of_header_def)
qed



lemma get_optional_user_Bearer:
  assumes "startswith a ''Bearer ''"
  shows "get_optional_user decode cfg find_user (Some a) =
           (case verify_token decode cfg (token_of_header a) of
              Inl e \<Rightarrow> ([], Inl e)
            | Inr None \<Rightarrow> ([], Inr None)
            | Inr (Some payload) \<Rightarrow>
                if payload = [] then ([], Inr None)
                else if \<not> truthy (dict_get payload ''user_id'') then ([], Inr None)
                else ([dict_get payload ''user_id''], find_user (dict_get payload ''user_id'')))"
proof -
  obtain ws where ws: "split_on CHR '' '' a = ''Bearer'' # token_of_header a # ws"
    using split_on_Bearer [OF assms] by blast
  have ne: "a \<noteq> []" using assms by (auto simp: startswith_def)
  show ?thesis
    unfolding get_optional_user_def using assms ne
    by (simp add: ws Let_def split: sum.splits option.splits)
qed


text \<open>
  Where \<open>get_optional_user\<close> returns \<open>None\<close>: without a header, with a header that
  does not start with \<open>Bearer\<close> and a space, with a token for which \<open>verify_token\<close>
  returns \<open>None\<close>, with a payload without \<open>user_id\<close>, and with a lookup that finds no
  record.
\<close>

lemma get_optional_user_returns_None:
  "get_optional_user decode cfg find_user None = ([], Inr None)
   \<and> (\<not> startswith a ''Bearer '' \<longrightarrow>
        get_optional_user decode cfg find_user (Some a) = ([], Inr None))
   \<and> (startswith a ''Bearer '' \<and> verify_token decode cfg (token_of_header a) = Inr None \<longrightarrow>
        get_optional_user decode cfg find_user (Some a) = ([], Inr None))
   \<and> (startswith a ''Bearer ''
        \<and> verify_token decode cfg (token_of_header a) = Inr (Some payload)
        \<and> map_of payload ''user_id'' = None \<longrightarrow>
        get_optional_user decode cfg find_user (Some a) = ([], Inr None))
   \<and> (startswith a ''Bearer ''
        \<and> verify_token decode cfg (token_of_header a) = Inr (Some payload)
        \<and> find_user (dict_get payload ''user_id'') = Inr None \<longrightarrow>
        snd (get_optional_user decode cfg find_user (Some a)) = Inr None)"
proof -
  have none: "get_optional_user decode cfg find_user None = ([], Inr None)"
    by (simp add: get_optional_user_def)
  have shape: "\<not> startswith a ''Bearer '' \<longrightarrow>
          get_optional_user decode cfg find_user (Some a) = ([], Inr None)"
    by (simp add: get_optional_user_def)
  have bad: "startswith a ''Bearer '' \<and> verify_token decode cfg (token_of_header a) = Inr None \<longrightarrow>
          get_optional_user decode cfg find_user (Some a) = ([], Inr None)"
    by (simp add: get_optional_user_Bearer)
  have missing: "startswith a ''Bearer ''
          \<and> verify_token decode cfg (token_of_header a) = Inr (Some payload)
          \<and> map_of payload ''user_id'' = None \<longrightarrow>
          get_optional_user decode cfg find_user (Some a) = ([], Inr None)"
    by (simp add: get_optional_user_Bearer dict_get_def)
  have nouser: "startswith a ''Bearer ''
          \<and> verify_token decode cfg (token_of_header a) = Inr (Some payload)
          \<and> find_user (dict_get payload ''user_id'') = Inr None \<longrightarrow>
          snd (get_optional_user decode cfg find_user (Some a)) = Inr None"
    by (simp add: get_optional_user_Bearer)
  from none shape bad missing nouser show ?thesis by blast
qed

text \<open>
  C4 fails where verification or the lookup raises: \<open>get_optional_user\<close> catches
  nothing, so an exception of \<open>jwt.decode\<close> that is not a \<open>JWTError\<close>, and an
  exception of the query, reach its caller, where the claim has it return \<open>None\<close>.
\<close>

theorem get_optional_user_propagates:
  "(startswith a ''Bearer ''
      \<and> decode (token_of_header a) (JWT_SECRET cfg) [JWT_ALGORITHM cfg] = Inl e
      \<and> \<not> isinstance_JWTError e \<longrightarrow>
      get_optional_user decode cfg find_user (Some a) = ([], Inl e))
   \<and> (startswith a ''Bearer ''
      \<and> decode (token_of_header a) (JWT_SECRET cfg) [JWT_ALGORITHM cfg] = Inr payload
      \<and> truthy (dict_get payload ''user_id'')
      \<and> find_user (dict_get payload ''user_id'') = Inl e' \<longrightarrow>
      get_optional_user decode cfg find_user (Some a)
        = ([dict_get payload ''user_id''], Inl e'))"
proof -
  have 1: "get_optional_user decode cfg find_user (Some a) = ([], Inl e)"
    if "startswith a ''Bearer ''"
      and "decode (token_of_header a) (JWT_SECRET cfg) [JWT_ALGORITHM cfg] = Inl e"
      and "\<not> isinstance_JWTError e"
    using that by (simp add: get_optional_user_Bearer verify_token_def)
  have 2: "get_optional_user decode cfg find_user (Some a)
        = ([dict_get payload ''user_id''], Inl e')"
    if "startswith a ''Bearer ''"
      and "decode (token_of_header a) (JWT_SECRET cfg) [JWT_ALGORITHM cfg] = Inr payload"
      and "truthy (dict_get payload ''user_id'')"
      and "find_user (dict_get payload ''user_id'') = Inl e'"
  proof -
    have "payload \<noteq> []" using that(3) by (auto simp: dict_get_def)
    with that show ?thesis by (simp add: get_optional_user_Bearer verify_token_def)
  qed
  from 1 2 show ?thesis by blast
qed

theorem get_optional_user_propagates_witness:
  "get_optional_user sample_decode default_settings sample_find_user (Some ''Bearer h.pnull.s'')
     = ([], Inl (TypeError
          ''int() argument must be a string, a bytes-like object or a real number''))
   \<and> get_optional_user sample_decode default_settings sample_find_user (Some ''Bearer h.pbig.s'')
     = ([PyInt 9223372036854775808],
        Inl (OverflowError ''Python int too large to convert to SQLite INTEGER''))"
proof -
  have 1: "get_optional_user sample_decode default_settings sample_find_user
      (Some ''Bearer h.pnull.s'')
     = ([], Inl (TypeError
          ''int() argument must be a string, a bytes-like object or a real number''))"
    using get_optional_user_propagates [where a = "''Bearer h.pnull.s''"
        and decode = sample_decode and cfg = default_settings and find_user = sample_find_user
        and e = "TypeError
          ''int() argument must be a string, a bytes-like object or a real number''"]
    by (simp add: startswith_def token_of_header_def sample_decode_def)
  have 2: "get_optional_user sample_decode default_settings sample_find_user
      (Some ''Bearer h.pbig.s'')
     = ([PyInt 9223372036854775808],
        Inl (OverflowError ''Python int too large to convert to SQLite INTEGER''))"
    using get_optional_user_propagates [where a = "''Bearer h.pbig.s''"
        and decode = sample_decode and cfg = default_settings and find_user = sample_find_user
        and payload = "[(''user_id'', PyInt 9223372036854775808), (''exp'', PyInt 1793836800)]"
        and e' = "OverflowError ''Python int too large to convert to SQLite INTEGER''"]
    by (simp add: startswith_def token_of_header_def sample_decode_def sample_find_user_def
        dict_get_def)
  from 1 2 show ?thesis by blast
qed



section \<open>Login: theorems\<close>

text \<open>
  With a password that the verifier answers with \<open>False\<close>, the two failures of
  \<open>login\<close> are the same exception.
\<close>

lemma login_wrong_password:
  assumes "find_user1 (login_email c1) = Inr None"
    and "find_user2 (login_email c2) = Inr (Some u)"
    and "verify2 (login_password c2) (password_hash u) = Inr False"
  shows "login enc1 cfg1 now1 find_user1 verify1 c1 = login enc2 cfg2 now2 find_user2 verify2 c2"
  using assms by (simp add: login_def)

text \<open>
  C8 fails where the verifier raises: for an email without a user record \<open>login\<close>
  raises the 401 exception, and for the email of a user whose password check raises,
  \<open>login\<close> raises that exception instead, since it catches nothing.
\<close>

theorem login_failure_distinguishable:
  assumes "find_user1 (login_email c1) = Inr None"
    and "find_user2 (login_email c2) = Inr (Some u)"
    and "verify2 (login_password c2) (password_hash u) = Inl e"
  shows "login enc1 cfg1 now1 find_user1 verify1 c1
           = Inl (HTTPException 401 ''Incorrect email or password'' None)
         \<and> login enc2 cfg2 now2 find_user2 verify2 c2 = Inl e"
  using assms by (simp add: login_def)

theorem login_failure_distinguishable_witness:
  "login (jose_encode sample_sign) default_settings sample_now (\<lambda>email. Inr None)
     sample_verify_password
     \<lparr> login_email = ''nobody@b.com'', login_password = nul_password \<rparr>
     = Inl (HTTPException 401 ''Incorrect email or password'' None)
   \<and> login (jose_encode sample_sign) default_settings sample_now
       (\<lambda>email. Inr (Some (sample_user USER))) sample_verify_password
       \<lparr> login_email = ''a@b.com'', login_password = nul_password \<rparr>
     = Inl (PasswordValueError ''bcrypt does not allow NULL bytes in password'')
   \<and> login (jose_encode sample_sign) default_settings sample_now (\<lambda>email. Inr None)
       sample_verify_password
       \<lparr> login_email = ''nobody@b.com'', login_password = nul_password \<rparr>
     \<noteq> login (jose_encode sample_sign) default_settings sample_now
       (\<lambda>email. Inr (Some (sample_user USER))) sample_verify_password
       \<lparr> login_email = ''a@b.com'', login_password = nul_password \<rparr>"
proof -
  have 1: "(\<lambda>email. Inr None :: py_exception + user option)
      (login_email \<lparr> login_email = ''nobody@b.com'', login_password = nul_password \<rparr>)
      = Inr None"
    by simp
  have 2: "(\<lambda>email. Inr (Some (sample_user USER)) :: py_exception + user option)
      (login_email \<lparr> login_email = ''a@b.com'', login_password = nul_password \<rparr>)
      = Inr (Some (sample_user USER))"
    by simp
  have 3: "sample_verify_password
      (login_password \<lparr> login_email = ''a@b.com'', login_password = nul_password \<rparr>)
      (password_hash (sample_user USER))
      = Inl (PasswordValueError ''bcrypt does not allow NULL bytes in password'')"
    by (simp add: sample_verify_password_def nul_password_def)
  from login_failure_distinguishable
    [where ?find_user1.0 = "\<lambda>email. Inr None"
       and ?find_user2.0 = "\<lambda>email. Inr (Some (sample_user USER))"
       and ?verify2.0 = sample_verify_password, OF 1 2 3]
  have r: "login (jose_encode sample_sign) default_settings sample_now (\<lambda>email. Inr None)
     sample_verify_password
     \<lparr> login_email = ''nobody@b.com'', login_password = nul_password \<rparr>
     = Inl (HTTPException 401 ''Incorrect email or password'' None)
   \<and> login (jose_encode sample_sign) default_settings sample_now
       (\<lambda>email. Inr (Some (sample_user USER))) sample_verify_password
       \<lparr> login_email = ''a@b.com'', login_password = nul_password \<rparr>
     = Inl (PasswordValueError ''bcrypt does not allow NULL bytes in password'')"
    by blast
  then show ?thesis by simp
qed

end
